theory Spec2Isabelle
  imports Complex_Main
begin

section \<open>Python values used by the forecasting engine\<close>

text \<open>
  The embedding follows \<^verbatim>\<open>src/app.py\<close>. Python floats are read as real numbers (exact
  arithmetic, no rounding, no bound); the one float that is not a number and that the code
  can receive, a NaN answer of the regressor, is a value of its own. Every \<^verbatim>\<open>raise\<close> is a value \<open>Inl e\<close> of a sum type, every
  normal return a value \<open>Inr v\<close>. Calls into the user interface (\<^verbatim>\<open>st.warning\<close>,
  \<^verbatim>\<open>st.error\<close>) have no effect on the computed values and are left out.
\<close>

datatype py_exception =
    ValueError string
  | IndexError string
  | ZeroDivisionError string
  | OtherException string

fun exc_str :: "py_exception \<Rightarrow> string" where
  "exc_str (ValueError m) = m"
| "exc_str (IndexError m) = m"
| "exc_str (ZeroDivisionError m) = m"
| "exc_str (OtherException m) = m"

text \<open>Python's \<^verbatim>\<open>a / b\<close> on numbers: raises when the divisor is zero.\<close>

definition py_truediv :: "real \<Rightarrow> real \<Rightarrow> py_exception + real" where
  "py_truediv a b =
     (if b = 0 then Inl (ZeroDivisionError ''division by zero'') else Inr (a / b))"

text \<open>
  A float that may be NaN. Every comparison with NaN is false. \<^verbatim>\<open>max(a, b)\<close> is
  \<open>b\<close> when \<^verbatim>\<open>b > a\<close> and \<open>a\<close> otherwise, so \<^verbatim>\<open>max(nan, b)\<close> is NaN and
  \<^verbatim>\<open>max(a, nan)\<close> is \<open>a\<close>; \<open>py_max_num\<close> is \<^verbatim>\<open>max(a, b)\<close> for a number \<open>a\<close>,
  which is always a number.
\<close>

datatype py_float = Num real | NaN

definition fl_lt :: "py_float \<Rightarrow> py_float \<Rightarrow> bool" where
  "fl_lt a b = (case a of Num x \<Rightarrow> (case b of Num y \<Rightarrow> x < y | NaN \<Rightarrow> False) | NaN \<Rightarrow> False)"

definition py_max2 :: "py_float \<Rightarrow> py_float \<Rightarrow> py_float" where
  "py_max2 a b = (if fl_lt a b then b else a)"

definition py_max_num :: "real \<Rightarrow> py_float \<Rightarrow> real" where
  "py_max_num a b = (case b of Num y \<Rightarrow> (if a < y then y else a) | NaN \<Rightarrow> a)"

text \<open>\<^verbatim>\<open>f"'{s}'"\<close>: a string between single quotes.\<close>

definition quoted :: "string \<Rightarrow> string" where
  "quoted s = [CHR 0x27] @ s @ [CHR 0x27]"

text \<open>\<^verbatim>\<open>str(n)\<close> for an integer, in decimal.\<close>

fun str_of_nat :: "nat \<Rightarrow> string" where
  "str_of_nat n =
     (if n < 10 then [char_of (48 + n)]
      else str_of_nat (n div 10) @ [char_of (48 + n mod 10)])"

declare str_of_nat.simps [simp del]

definition str_of_int :: "int \<Rightarrow> string" where
  "str_of_int i = (if i < 0 then CHR ''-'' # str_of_nat (nat (- i)) else str_of_nat (nat i))"

subsection \<open>Dates\<close>

text \<open>
  A date is its proleptic Gregorian day number (\<^verbatim>\<open>date.toordinal()\<close>); the time of day
  and the upper bound of the library's date range are not modelled. \<^verbatim>\<open>d + timedelta(days=n)\<close>
  adds \<open>n\<close> to the day number; \<^verbatim>\<open>.year\<close> and \<^verbatim>\<open>.month\<close> are read off the day
  number by the usual civil-calendar conversion.
\<close>

type_synonym date = int

definition add_days :: "date \<Rightarrow> int \<Rightarrow> date" where
  "add_days d n = d + n"

definition civil_year_month :: "date \<Rightarrow> int \<times> int" where
  "civil_year_month d =
     (let z = d + 305;
          era = z div 146097;
          doe = z mod 146097;
          yoe = (doe - doe div 1460 + doe div 36524 - doe div 146096) div 365;
          doy = doe - (365 * yoe + yoe div 4 - yoe div 100);
          mp = (5 * doy + 2) div 153;
          m = (if mp < 10 then mp + 3 else mp - 9);
          y = yoe + era * 400 + (if m \<le> 2 then 1 else 0)
      in (y, m))"

definition date_year :: "date \<Rightarrow> int" where
  "date_year d = fst (civil_year_month d)"

definition date_month :: "date \<Rightarrow> int" where
  "date_month d = snd (civil_year_month d)"

text \<open>\<^verbatim>\<open>datetime(2018, 1, 1)\<close>\<close>

definition datetime_2018_1_1 :: date where
  "datetime_2018_1_1 = 736695"

text \<open>\<^verbatim>\<open>max(xs)\<close> on a list: raises ValueError on the empty list.\<close>

definition py_max :: "date list \<Rightarrow> py_exception + date" where
  "py_max xs =
     (case xs of
        [] \<Rightarrow> Inl (ValueError ''max() arg is an empty sequence'')
      | x # rest \<Rightarrow> Inr (fold max rest x))"

subsection \<open>numpy\<close>

text \<open>
  \<^verbatim>\<open>np.mean\<close> of a non-empty list, and the slope \<^verbatim>\<open>np.polyfit(x, y, 1)[0]\<close> of the
  least-squares line through the points \<open>(0, y\<^sub>0), \<dots>, (k - 1, y\<^bsub>k-1\<^esub>)\<close>, in closed form.
  Both are only called on lists of at least two values.
\<close>

definition np_mean :: "real list \<Rightarrow> real" where
  "np_mean xs = sum_list xs / real (length xs)"

definition np_polyfit_slope :: "real list \<Rightarrow> real" where
  "np_polyfit_slope ys =
     (let k = length ys;
          xs = map real [0..<k];
          sx = sum_list xs;
          sxx = sum_list (map (\<lambda>x. x * x) xs);
          sy = sum_list ys;
          sxy = sum_list (map2 (*) xs ys)
      in (real k * sxy - sx * sy) / (real k * sxx - sx * sx))"

section \<open>Data model\<close>

text \<open>
  \<^verbatim>\<open>county_data[name]\<close> is a dict with the keys \<^verbatim>\<open>'state'\<close> and
  \<^verbatim>\<open>'historical_data'\<close>; the latter holds the lists \<^verbatim>\<open>'dates'\<close> and
  \<^verbatim>\<open>'ev_totals'\<close>. The type parameter is the representation of the list of totals: the
  list itself where only its contents matter, an address into a store where aliasing matters.
\<close>

record 'l historical_data =
  dates :: "date list"
  ev_totals :: 'l

record 'l county_info =
  state :: string
  historical_data :: "'l historical_data"

type_synonym 'l county_data = "string \<rightharpoonup> 'l county_info"

text \<open>A one-row data frame: the column names in order, each with its value.\<close>

type_synonym model_input = "(string \<times> real) list"

text \<open>
  The regressor: \<^verbatim>\<open>type(model).__name__\<close> and \<^verbatim>\<open>float(model.predict(model_input)[0])\<close>,
  which may raise.
\<close>

record model =
  type_name :: string
  predict :: "model_input \<Rightarrow> py_exception + py_float"

text \<open>
  What the function reads from outside its arguments: the cached county encoding table, the
  earliest date of \<^verbatim>\<open>preprocessed_ev_data.csv\<close> (\<open>None\<close> when reading the file fails),
  and the clock \<^verbatim>\<open>datetime.now()\<close>.
\<close>

record env =
  county_encoding_map :: "string \<rightharpoonup> int"
  csv_earliest_date :: "date option"
  now :: int

record forecast_metadata =
  model_type :: string
  prediction_date :: int
  meta_forecast_months :: int
  historical_data_points :: nat

record forecast_result =
  county :: string
  result_state :: string
  forecast_period :: string
  result_prediction_dates :: "date list"
  predicted_values :: "real list"
  latest_historical_value :: real
  latest_historical_date :: date
  total_growth :: real
  avg_monthly_growth :: real
  growth_percentage :: real
  metadata :: forecast_metadata

section \<open>Feature engineering\<close>

text \<open>\<^verbatim>\<open>get_county_info\<close> and \<^verbatim>\<open>get_county_encoding\<close>: dictionary lookups.\<close>

definition get_county_info :: "string \<Rightarrow> 'l county_data \<Rightarrow> 'l county_info option" where
  "get_county_info county_name county_data = county_data county_name"

definition get_county_encoding :: "env \<Rightarrow> string \<Rightarrow> int option" where
  "get_county_encoding e county_name = county_encoding_map e county_name"

text \<open>
  \<^verbatim>\<open>calculate_feature_engineering_values\<close> (lines 1046-1106). The body runs inside
  \<^verbatim>\<open>try\<close>; every exception, the function's own ValueError included, is raised again as
  a ValueError with a prefixed message.
\<close>

definition feature_engineering_body :: "real list \<Rightarrow> py_exception + (string \<times> real) list" where
  "feature_engineering_body totals =
     (let n = length totals in
      if n < 3 then
        Inl (ValueError
          ''Insufficient historical data for feature engineering (need at least 3 data points)'')
      else
        (let ev_total_lag1 = (if n \<ge> 1 then totals ! (n - 1) else 0);
             ev_total_lag2 = (if n \<ge> 2 then totals ! (n - 2) else 0);
             ev_total_lag3 = (if n \<ge> 3 then totals ! (n - 3) else 0);
             recent_values = drop (n - 3) totals;
             ev_total_roll_mean_3 = np_mean recent_values;
             pct_change_1 =
               (if n \<ge> 2 \<and> totals ! (n - 2) \<noteq> 0
                then py_truediv (totals ! (n - 1) - totals ! (n - 2)) (totals ! (n - 2))
                else Inr 0);
             pct_change_3 =
               (if n \<ge> 4 \<and> totals ! (n - 4) \<noteq> 0
                then py_truediv (totals ! (n - 1) - totals ! (n - 4)) (totals ! (n - 4))
                else Inr 0);
             slope =
               (if n \<ge> 3 then
                  (let recent_points = min 6 n;
                       y_values = drop (n - recent_points) totals
                   in if recent_points > 1 then np_polyfit_slope y_values else 0)
                else 0)
         in case pct_change_1 of
              Inl e \<Rightarrow> Inl e
            | Inr ev_total_pct_change_1 \<Rightarrow>
                (case pct_change_3 of
                   Inl e \<Rightarrow> Inl e
                 | Inr ev_total_pct_change_3 \<Rightarrow>
                     Inr [(''ev_total_lag1'', ev_total_lag1),
                          (''ev_total_lag2'', ev_total_lag2),
                          (''ev_total_lag3'', ev_total_lag3),
                          (''ev_total_roll_mean_3'', ev_total_roll_mean_3),
                          (''ev_total_pct_change_1'', ev_total_pct_change_1),
                          (''ev_total_pct_change_3'', ev_total_pct_change_3),
                          (''ev_growth_slope'', slope)])))"

definition calculate_feature_engineering_values ::
  "real list historical_data \<Rightarrow> py_exception + (string \<times> real) list" where
  "calculate_feature_engineering_values hdata =
     (case feature_engineering_body (ev_totals hdata) of
        Inl e \<Rightarrow>
          Inl (ValueError (''Error calculating feature engineering values: '' @ exc_str e))
      | Inr features \<Rightarrow> Inr features)"

section \<open>The forecast loop\<close>

text \<open>
  The feature computation written out inside the loop of \<^verbatim>\<open>generate_forecast\<close>
  (lines 1246-1286), reached only when the working series has at least 3 values.
\<close>

definition forecast_features :: "int \<Rightarrow> int \<Rightarrow> real list \<Rightarrow> py_exception + model_input" where
  "forecast_features months_since_start county_encoded current =
     (let n = length current;
          ev_total_lag1 = current ! (n - 1);
          ev_total_lag2 = current ! (n - 2);
          ev_total_lag3 = current ! (n - 3);
          recent_values = drop (n - 3) current;
          ev_total_roll_mean_3 = np_mean recent_values;
          pct_change_1 =
            (if n \<ge> 2 \<and> current ! (n - 2) \<noteq> 0
             then py_truediv (current ! (n - 1) - current ! (n - 2)) (current ! (n - 2))
             else Inr 0);
          pct_change_3 =
            (if n \<ge> 4 \<and> current ! (n - 4) \<noteq> 0
             then py_truediv (current ! (n - 1) - current ! (n - 4)) (current ! (n - 4))
             else Inr 0);
          recent_points = min 6 n;
          y_values = drop (n - recent_points) current;
          slope = (if recent_points > 1 then np_polyfit_slope y_values else 0)
      in case pct_change_1 of
           Inl e \<Rightarrow> Inl e
         | Inr ev_total_pct_change_1 \<Rightarrow>
             (case pct_change_3 of
                Inl e \<Rightarrow> Inl e
              | Inr ev_total_pct_change_3 \<Rightarrow>
                  Inr [(''months_since_start'', real_of_int months_since_start),
                       (''county_encoded'', real_of_int county_encoded),
                       (''ev_total_lag1'', ev_total_lag1),
                       (''ev_total_lag2'', ev_total_lag2),
                       (''ev_total_lag3'', ev_total_lag3),
                       (''ev_total_roll_mean_3'', ev_total_roll_mean_3),
                       (''ev_total_pct_change_1'', ev_total_pct_change_1),
                       (''ev_total_pct_change_3'', ev_total_pct_change_3),
                       (''ev_growth_slope'', slope)]))"

text \<open>
  The adjustment of the raw prediction (lines 1292-1319): the first-step or later-step
  clamp, the minimum growth over the previous prediction, the minimum threshold. The raw
  prediction may be NaN; the value that is recorded is a number, since
  \<^verbatim>\<open>max(0.1, prediction)\<close> is 0.1 for a NaN.
\<close>

definition adjust_prediction :: "real list \<Rightarrow> real list \<Rightarrow> py_float \<Rightarrow> real" where
  "adjust_prediction preds current raw_prediction =
     (let prediction = raw_prediction;
          prediction =
            (if length preds = 0 then
               (let current_value = last current in
                if fl_lt prediction (Num (current_value * 0.7)) then Num (current_value * 0.95)
                else if fl_lt (Num (current_value * 1.5)) prediction
                then Num (current_value * 1.1)
                else prediction)
             else
               (let prev_prediction = last preds in
                if fl_lt prediction (Num (prev_prediction * 0.8))
                then Num (prev_prediction * 0.98)
                else if fl_lt (Num (prev_prediction * 1.3)) prediction
                then Num (prev_prediction * 1.05)
                else prediction));
          prediction =
            (if length preds > 0 then
               (let base_growth = 1.01 in py_max2 prediction (Num (last preds * base_growth)))
             else prediction)
      in py_max_num 0.1 prediction)"

text \<open>The three lists the loop updates.\<close>

record loop_state =
  predictions :: "real list"
  prediction_dates :: "date list"
  current_ev_totals :: "real list"

text \<open>What the loop reads and never changes.\<close>

record forecast_ctx =
  ctx_model :: model
  ctx_base_months :: int
  ctx_county_encoded :: int
  ctx_latest_date :: date

text \<open>
  The part of the \<^verbatim>\<open>try\<close> block that can raise (lines 1242-1292): the length check,
  the features, the call of the regressor.
\<close>

definition raw_predict ::
  "forecast_ctx \<Rightarrow> int \<Rightarrow> real list \<Rightarrow> py_exception + py_float" where
  "raw_predict ctx month_ahead current =
     (let months_since_start = ctx_base_months ctx + month_ahead in
      if length current \<ge> 3 then
        (case forecast_features months_since_start (ctx_county_encoded ctx) current of
           Inl e \<Rightarrow> Inl e
         | Inr model_input \<Rightarrow> predict (ctx_model ctx) model_input)
      else Inl (ValueError ''Insufficient historical data for iterative prediction''))"

text \<open>
  One iteration (lines 1240-1347). \<open>hist\<close> is \<^verbatim>\<open>historical_data['ev_totals']\<close>, which
  the \<^verbatim>\<open>except\<close> branch reads; an IndexError raised there leaves the loop.
\<close>

definition forecast_step ::
  "forecast_ctx \<Rightarrow> real list \<Rightarrow> int \<Rightarrow> loop_state \<Rightarrow> py_exception + loop_state" where
  "forecast_step ctx hist month_ahead st =
     (case raw_predict ctx month_ahead (current_ev_totals st) of
        Inr raw_prediction \<Rightarrow>
          (let prediction =
                 adjust_prediction (predictions st) (current_ev_totals st) raw_prediction
           in Inr \<lparr>predictions = predictions st @ [prediction],
                   prediction_dates =
                     prediction_dates st @ [add_days (ctx_latest_date ctx) (30 * month_ahead)],
                   current_ev_totals = current_ev_totals st @ [prediction]\<rparr>)
      | Inl e \<Rightarrow>
          (if predictions st \<noteq> [] then
             (let last_prediction = last (predictions st);
                  trend_prediction = last_prediction * 1.02
              in Inr (st\<lparr>predictions := predictions st @ [trend_prediction],
                         prediction_dates :=
                           prediction_dates st
                             @ [add_days (ctx_latest_date ctx) (30 * month_ahead)]\<rparr>))
           else if hist = [] then Inl (IndexError ''list index out of range'')
           else
             (let latest_ev_total = last hist
              in Inr (st\<lparr>predictions := predictions st @ [latest_ev_total * 1.01],
                         prediction_dates :=
                           prediction_dates st
                             @ [add_days (ctx_latest_date ctx) (30 * month_ahead)]\<rparr>))))"

text \<open>\<^verbatim>\<open>for month_ahead in range(1, forecast_months + 1)\<close>, over the list of its values.\<close>

fun forecast_loop ::
  "forecast_ctx \<Rightarrow> real list \<Rightarrow> int list \<Rightarrow> loop_state \<Rightarrow> py_exception + loop_state" where
  "forecast_loop ctx hist [] st = Inr st"
| "forecast_loop ctx hist (month_ahead # rest) st =
     (case forecast_step ctx hist month_ahead st of
        Inl e \<Rightarrow> Inl e
      | Inr st' \<Rightarrow> forecast_loop ctx hist rest st')"

text \<open>
  The latest date of the county and the months between the start of the data and it
  (lines 1221-1230). When the file cannot be read the start is January 2018; with no date
  at all \<^verbatim>\<open>max\<close> raises in the handler as well.
\<close>

definition latest_and_base_months :: "env \<Rightarrow> date list \<Rightarrow> py_exception + (date \<times> int)" where
  "latest_and_base_months e ds =
     (case py_max ds of
        Inl err \<Rightarrow> Inl err
      | Inr latest_date \<Rightarrow>
          (let start_date =
                 (case csv_earliest_date e of Some d \<Rightarrow> d | None \<Rightarrow> datetime_2018_1_1)
           in Inr (latest_date,
                   (date_year latest_date - date_year start_date) * 12
                     + (date_month latest_date - date_month start_date))))"

text \<open>The statistics and the result dictionary (lines 1349-1378).\<close>

definition build_result ::
  "env \<Rightarrow> string \<Rightarrow> string \<Rightarrow> model \<Rightarrow> int \<Rightarrow> date \<Rightarrow> real list \<Rightarrow> loop_state
     \<Rightarrow> py_exception + forecast_result" where
  "build_result e county_name st_name mdl forecast_months latest_date historical_ev_totals st =
     (if historical_ev_totals = [] then Inl (IndexError ''list index out of range'')
      else
        (let latest_historical = last historical_ev_totals;
             total_growth =
               (if predictions st \<noteq> [] then last (predictions st) - latest_historical else 0);
             avg_monthly_growth =
               (if forecast_months > 0 then total_growth / real_of_int forecast_months else 0);
             growth_percentage =
               (if latest_historical > 0 then total_growth / latest_historical * 100 else 0)
         in Inr \<lparr>county = county_name,
                 result_state = st_name,
                 forecast_period = str_of_int forecast_months @ '' months'',
                 result_prediction_dates = prediction_dates st,
                 predicted_values = predictions st,
                 latest_historical_value = latest_historical,
                 latest_historical_date = latest_date,
                 total_growth = total_growth,
                 avg_monthly_growth = avg_monthly_growth,
                 growth_percentage = growth_percentage,
                 metadata =
                   \<lparr>model_type = type_name mdl,
                    prediction_date = now e,
                    meta_forecast_months = forecast_months,
                    historical_data_points = length historical_ev_totals\<rparr>\<rparr>))"

text \<open>
  The handlers around the whole body (lines 1380-1384): a ValueError is raised again as it
  is, any other exception as a ValueError naming the county.
\<close>

definition reraise :: "string \<Rightarrow> py_exception + 'a \<Rightarrow> py_exception + 'a" where
  "reraise county_name r =
     (case r of
        Inr v \<Rightarrow> Inr v
      | Inl (ValueError m) \<Rightarrow> Inl (ValueError m)
      | Inl e \<Rightarrow>
          Inl (ValueError (''Error generating forecast for county '' @ quoted county_name
                            @ '': '' @ exc_str e)))"

text \<open>\<^verbatim>\<open>generate_forecast\<close> (lines 1189-1384), on lists as values.\<close>

definition generate_forecast ::
  "env \<Rightarrow> string \<Rightarrow> real list county_data \<Rightarrow> model option \<Rightarrow> int
     \<Rightarrow> py_exception + forecast_result" where
  "generate_forecast e county_name county_data model_opt forecast_months =
     reraise county_name
       (case model_opt of
          None \<Rightarrow> Inl (ValueError ''Model is not available for prediction'')
        | Some mdl \<Rightarrow>
            (case get_county_info county_name county_data of
               None \<Rightarrow> Inl (ValueError (''County '' @ quoted county_name @ '' not found in data''))
             | Some info \<Rightarrow>
                 (let hdata = historical_data info;
                      totals = ev_totals hdata
                  in case get_county_encoding e county_name of
                       None \<Rightarrow>
                         Inl (ValueError (''Could not find encoding for county ''
                                           @ quoted county_name))
                     | Some county_encoded \<Rightarrow>
                         (case latest_and_base_months e (dates hdata) of
                            Inl err \<Rightarrow> Inl err
                          | Inr (latest_date, base_months) \<Rightarrow>
                              (let ctx = \<lparr>ctx_model = mdl,
                                          ctx_base_months = base_months,
                                          ctx_county_encoded = county_encoded,
                                          ctx_latest_date = latest_date\<rparr>;
                                   st0 = \<lparr>predictions = [],
                                          prediction_dates = [],
                                          current_ev_totals = totals\<rparr>
                               in case forecast_loop ctx (ev_totals hdata)
                                         [1..forecast_months] st0 of
                                    Inl err \<Rightarrow> Inl err
                                  | Inr st \<Rightarrow>
                                      build_result e county_name (state info) mdl
                                        forecast_months latest_date (ev_totals hdata) st)))))"

section \<open>The forecast on a store of lists\<close>

text \<open>
  Python lists are objects: \<^verbatim>\<open>county_data[name]['historical_data']['ev_totals']\<close> is a
  reference to the caller's list, \<^verbatim>\<open>.copy()\<close> makes a new list and \<^verbatim>\<open>.append\<close>
  changes a list in place. A store maps addresses to lists; \<open>fresh\<close> is the next unused
  address, and addresses not in use hold the empty list. The lists \<^verbatim>\<open>predictions\<close> and
  \<^verbatim>\<open>prediction_dates\<close> are created by the function and reach the caller only through
  the result, so they stay values.
\<close>

type_synonym addr = nat

record store =
  cells :: "addr \<Rightarrow> real list"
  fresh :: addr

text \<open>\<^verbatim>\<open>xs.copy()\<close> and \<^verbatim>\<open>xs.append(v)\<close>.\<close>

definition list_copy :: "store \<Rightarrow> addr \<Rightarrow> addr \<times> store" where
  "list_copy s a =
     (fresh s, s\<lparr>cells := (cells s)(fresh s := cells s a), fresh := Suc (fresh s)\<rparr>)"

definition list_append :: "store \<Rightarrow> addr \<Rightarrow> real \<Rightarrow> store" where
  "list_append s a v = s\<lparr>cells := (cells s)(a := cells s a @ [v])\<rparr>"

text \<open>
  One iteration, the loop and \<^verbatim>\<open>generate_forecast\<close> again, with \<open>hist_ref\<close> the
  caller's list and \<open>cur_ref\<close> the list \<^verbatim>\<open>current_ev_totals\<close>. The store is returned
  with the result, also when the function raises.
\<close>

definition forecast_step_st ::
  "forecast_ctx \<Rightarrow> addr \<Rightarrow> addr \<Rightarrow> int \<Rightarrow> real list \<times> date list \<Rightarrow> store
     \<Rightarrow> (py_exception + real list \<times> date list) \<times> store" where
  "forecast_step_st ctx hist_ref cur_ref month_ahead pl s =
     (case pl of (preds, pdates) \<Rightarrow>
      (case raw_predict ctx month_ahead (cells s cur_ref) of
         Inr raw_prediction \<Rightarrow>
           (let prediction = adjust_prediction preds (cells s cur_ref) raw_prediction
            in (Inr (preds @ [prediction],
                     pdates @ [add_days (ctx_latest_date ctx) (30 * month_ahead)]),
                list_append s cur_ref prediction))
       | Inl e \<Rightarrow>
           (if preds \<noteq> [] then
              (let last_prediction = last preds;
                   trend_prediction = last_prediction * 1.02
               in (Inr (preds @ [trend_prediction],
                        pdates @ [add_days (ctx_latest_date ctx) (30 * month_ahead)]), s))
            else if cells s hist_ref = [] then (Inl (IndexError ''list index out of range''), s)
            else
              (let latest_ev_total = last (cells s hist_ref)
               in (Inr (preds @ [latest_ev_total * 1.01],
                        pdates @ [add_days (ctx_latest_date ctx) (30 * month_ahead)]), s)))))"

fun forecast_loop_st ::
  "forecast_ctx \<Rightarrow> addr \<Rightarrow> addr \<Rightarrow> int list \<Rightarrow> real list \<times> date list \<Rightarrow> store
     \<Rightarrow> (py_exception + real list \<times> date list) \<times> store" where
  "forecast_loop_st ctx hist_ref cur_ref [] pl s = (Inr pl, s)"
| "forecast_loop_st ctx hist_ref cur_ref (month_ahead # rest) pl s =
     (case forecast_step_st ctx hist_ref cur_ref month_ahead pl s of
        (Inl e, s') \<Rightarrow> (Inl e, s')
      | (Inr pl', s') \<Rightarrow> forecast_loop_st ctx hist_ref cur_ref rest pl' s')"

definition generate_forecast_st ::
  "env \<Rightarrow> string \<Rightarrow> addr county_data \<Rightarrow> model option \<Rightarrow> int \<Rightarrow> store
     \<Rightarrow> (py_exception + forecast_result) \<times> store" where
  "generate_forecast_st e county_name county_data model_opt forecast_months s =
     (case model_opt of
        None \<Rightarrow> (reraise county_name (Inl (ValueError ''Model is not available for prediction'')), s)
      | Some mdl \<Rightarrow>
          (case get_county_info county_name county_data of
             None \<Rightarrow>
               (reraise county_name
                  (Inl (ValueError (''County '' @ quoted county_name @ '' not found in data''))), s)
           | Some info \<Rightarrow>
               (let hdata = historical_data info;
                    hist_ref = ev_totals hdata;
                    (totals_ref, s1) = list_copy s hist_ref
                in case get_county_encoding e county_name of
                     None \<Rightarrow>
                       (reraise county_name
                          (Inl (ValueError (''Could not find encoding for county ''
                                             @ quoted county_name))), s1)
                   | Some county_encoded \<Rightarrow>
                       (case latest_and_base_months e (dates hdata) of
                          Inl err \<Rightarrow> (reraise county_name (Inl err), s1)
                        | Inr (latest_date, base_months) \<Rightarrow>
                            (let ctx = \<lparr>ctx_model = mdl,
                                        ctx_base_months = base_months,
                                        ctx_county_encoded = county_encoded,
                                        ctx_latest_date = latest_date\<rparr>;
                                 (cur_ref, s2) = list_copy s1 totals_ref
                             in case forecast_loop_st ctx hist_ref cur_ref
                                       [1..forecast_months] ([], []) s2 of
                                  (Inl err, s3) \<Rightarrow> (reraise county_name (Inl err), s3)
                                | (Inr (preds, pdates), s3) \<Rightarrow>
                                    (reraise county_name
                                       (build_result e county_name (state info) mdl
                                          forecast_months latest_date (cells s3 hist_ref)
                                          \<lparr>predictions = preds, prediction_dates = pdates,
                                           current_ev_totals = cells s3 cur_ref\<rparr>), s3))))))"

text \<open>The county data with every reference replaced by the list it points to.\<close>

definition deref_county :: "store \<Rightarrow> addr county_data \<Rightarrow> real list county_data" where
  "deref_county s county_data =
     (\<lambda>name. case county_data name of
        None \<Rightarrow> None
      | Some info \<Rightarrow>
          Some \<lparr>state = state info,
                historical_data =
                  \<lparr>dates = dates (historical_data info),
                   ev_totals = cells s (ev_totals (historical_data info))\<rparr>\<rparr>)"

section \<open>Concrete inputs\<close>

text \<open>
  A county with up to three monthly records (January to March 2024), an encoding table
  that knows it, a data file whose earliest date is 1 January 2017, and regressors that
  always answer the same value or always raise.
\<close>

definition example_env :: env where
  "example_env =
     \<lparr>county_encoding_map = [''King'' \<mapsto> 7], csv_earliest_date = Some 736330, now = 0\<rparr>"

definition example_info :: "real list \<Rightarrow> real list county_info" where
  "example_info totals =
     \<lparr>state = ''WA'',
      historical_data =
        \<lparr>dates = take (length totals) [738886, 738917, 738946], ev_totals = totals\<rparr>\<rparr>"

definition example_county :: "real list \<Rightarrow> real list county_data" where
  "example_county totals = [''King'' \<mapsto> example_info totals]"

definition constant_model :: "real \<Rightarrow> model" where
  "constant_model v = \<lparr>type_name = ''RandomForestRegressor'', predict = (\<lambda>_. Inr (Num v))\<rparr>"

definition failing_model :: model where
  "failing_model =
     \<lparr>type_name = ''RandomForestRegressor'',
      predict = (\<lambda>_. Inl (OtherException ''predict failed''))\<rparr>"

definition example_ctx :: "model \<Rightarrow> forecast_ctx" where
  "example_ctx mdl =
     \<lparr>ctx_model = mdl, ctx_base_months = 86, ctx_county_encoded = 7,
      ctx_latest_date = 738946\<rparr>"

text \<open>
  A regressor that raises on the first step of the example county (where
  \<^verbatim>\<open>months_since_start\<close> is 87) and afterwards answers 1.1 times the column
  \<^verbatim>\<open>ev_total_lag1\<close>, which makes the working series visible in the result.
\<close>

definition first_failing_model :: model where
  "first_failing_model =
     \<lparr>type_name = ''RandomForestRegressor'',
      predict = (\<lambda>mi. if map_of mi ''months_since_start'' = Some 87
                       then Inl (OtherException ''predict failed'')
                       else (case map_of mi ''ev_total_lag1'' of
                               Some v \<Rightarrow> Inr (Num (v * 1.1))
                             | None \<Rightarrow> Inl (OtherException ''missing column'')))\<rparr>"

text \<open>
  The regressor of the worked example: 1150 on the first step of the example county,
  1300 afterwards.
\<close>

definition stepwise_model :: model where
  "stepwise_model =
     \<lparr>type_name = ''RandomForestRegressor'',
      predict = (\<lambda>mi. if map_of mi ''months_since_start'' = Some 87
                       then Inr (Num 1150) else Inr (Num 1300))\<rparr>"



text \<open>The same county with its list of totals at address 0 of a store.\<close>

definition example_store :: store where
  "example_store = \<lparr>cells = (\<lambda>_. [])(0 := [1000, 1050, 1100]), fresh = 1\<rparr>"

definition example_info_st :: "addr county_info" where
  "example_info_st =
     \<lparr>state = ''WA'',
      historical_data = \<lparr>dates = [738886, 738917, 738946], ev_totals = 0\<rparr>\<rparr>"

definition example_county_st :: "addr county_data" where
  "example_county_st = [''King'' \<mapsto> example_info_st]"

text \<open>A result with the time of its generation blanked.\<close>

definition erase_timestamp :: "forecast_result \<Rightarrow> forecast_result" where
  "erase_timestamp r = r\<lparr>metadata := (metadata r)\<lparr>prediction_date := 0\<rparr>\<rparr>"

section \<open>Properties of the loop\<close>

subsection \<open>Auxiliary facts\<close>

lemma py_max_sorted:
  assumes "sorted ds" "ds \<noteq> []"
  shows "py_max ds = Inr (last ds)"
proof -
  obtain x rest where ds: "ds = x # rest" using assms(2) by (cases ds) auto
  have "fold max rest x = Max (set (x # rest))" by (rule Max.set_eq_fold [symmetric])
  also have "\<dots> = last (x # rest)"
  proof (rule Max_eqI)
    show "finite (set (x # rest))" by simp
    show "last (x # rest) \<in> set (x # rest)" by (rule last_in_set) simp
    fix y assume "y \<in> set (x # rest)"
    then obtain i where i: "i < length (x # rest)" "y = (x # rest) ! i"
      by (metis in_set_conv_nth)
    have "(x # rest) ! i \<le> (x # rest) ! (length (x # rest) - 1)"
      using assms(1) i(1) unfolding ds by (intro sorted_nth_mono) auto
    moreover have "last (x # rest) = (x # rest) ! (length (x # rest) - 1)"
      by (rule last_conv_nth) simp
    ultimately show "y \<le> last (x # rest)" using i(2) by (simp only:)
  qed
  finally show ?thesis by (simp add: py_max_def ds)
qed

lemma py_max_num_max2: "Num (py_max_num a b) = py_max2 (Num a) b"
  by (cases b) (simp_all add: py_max_num_def py_max2_def fl_lt_def)

lemma adjust_prediction_Num:
  "adjust_prediction preds current (Num raw) =
     max 0.1
       (if preds = [] then
          (if raw < last current * 0.7 then last current * 0.95
           else if raw > last current * 1.5 then last current * 1.1
           else raw)
        else
          max (if raw < last preds * 0.8 then last preds * 0.98
               else if raw > last preds * 1.3 then last preds * 1.05
               else raw)
              (last preds * 1.01))"
  by (simp add: adjust_prediction_def fl_lt_def py_max2_def py_max_num_def Let_def max_def)

lemma adjust_prediction_NaN: "adjust_prediction preds current NaN = 0.1"
  by (simp add: adjust_prediction_def fl_lt_def py_max2_def py_max_num_def Let_def)

lemma adjust_prediction_ge_threshold: "0.1 \<le> adjust_prediction preds current raw"
  by (cases raw) (simp_all add: adjust_prediction_Num adjust_prediction_NaN)



lemma forecast_step_normal:
  assumes "raw_predict ctx m (current_ev_totals st) = Inr raw"
  shows "forecast_step ctx hist m st =
           Inr \<lparr>predictions =
                  predictions st @ [adjust_prediction (predictions st) (current_ev_totals st) raw],
                prediction_dates = prediction_dates st @ [ctx_latest_date ctx + 30 * m],
                current_ev_totals =
                  current_ev_totals st
                    @ [adjust_prediction (predictions st) (current_ev_totals st) raw]\<rparr>"
  using assms by (simp add: forecast_step_def add_days_def Let_def)

lemma forecast_step_fallback_later:
  assumes "raw_predict ctx m (current_ev_totals st) = Inl err" "predictions st \<noteq> []"
  shows "forecast_step ctx hist m st =
           Inr \<lparr>predictions = predictions st @ [last (predictions st) * 1.02],
                prediction_dates = prediction_dates st @ [ctx_latest_date ctx + 30 * m],
                current_ev_totals = current_ev_totals st\<rparr>"
  using assms by (simp add: forecast_step_def add_days_def Let_def)

lemma forecast_step_fallback_first:
  assumes "raw_predict ctx m (current_ev_totals st) = Inl err" "predictions st = []"
    "hist \<noteq> []"
  shows "forecast_step ctx hist m st =
           Inr \<lparr>predictions = [last hist * 1.01],
                prediction_dates = prediction_dates st @ [ctx_latest_date ctx + 30 * m],
                current_ev_totals = current_ev_totals st\<rparr>"
  using assms by (simp add: forecast_step_def add_days_def Let_def)

lemma forecast_step_shape:
  assumes "hist \<noteq> []"
  shows "\<exists>p cur. forecast_step ctx hist m st =
           Inr \<lparr>predictions = predictions st @ [p],
                prediction_dates = prediction_dates st @ [ctx_latest_date ctx + 30 * m],
                current_ev_totals = cur\<rparr>"
proof (cases "raw_predict ctx m (current_ev_totals st)")
  case (Inr raw)
  then show ?thesis by (simp add: forecast_step_normal)
next
  case (Inl err)
  show ?thesis
  proof (cases "predictions st = []")
    case True
    show ?thesis
      unfolding forecast_step_fallback_first [OF Inl True assms]
      by (rule exI [of _ "last hist * 1.01"], rule exI [of _ "current_ev_totals st"])
        (simp only: True append_Nil)
  next
    case False
    show ?thesis
      unfolding forecast_step_fallback_later [OF Inl False]
      by (rule exI [of _ "last (predictions st) * 1.02"], rule exI [of _ "current_ev_totals st"])
        (rule refl)
  qed
qed

lemma forecast_loop_shape:
  assumes "hist \<noteq> []"
  shows "\<exists>st'. forecast_loop ctx hist ms st = Inr st'
           \<and> length (predictions st') = length (predictions st) + length ms
           \<and> prediction_dates st' =
               prediction_dates st @ map (\<lambda>m. ctx_latest_date ctx + 30 * m) ms"
proof (induction ms arbitrary: st)
  case Nil
  show ?case by simp
next
  case (Cons m ms)
  obtain p cur where step: "forecast_step ctx hist m st =
      Inr \<lparr>predictions = predictions st @ [p],
           prediction_dates = prediction_dates st @ [ctx_latest_date ctx + 30 * m],
           current_ev_totals = cur\<rparr>"
    using forecast_step_shape [OF assms] by blast
  from Cons.IH [of "\<lparr>predictions = predictions st @ [p],
           prediction_dates = prediction_dates st @ [ctx_latest_date ctx + 30 * m],
           current_ev_totals = cur\<rparr>"]
  show ?case by (simp add: step)
qed

lemma forecast_loop_invariant:
  assumes step: "\<And>m st st'. P (predictions st) \<Longrightarrow> forecast_step ctx hist m st = Inr st'
                   \<Longrightarrow> P (predictions st')"
    and "P (predictions st)" "forecast_loop ctx hist ms st = Inr st'"
  shows "P (predictions st')"
  using assms(2,3)
proof (induction ms arbitrary: st)
  case Nil
  then show ?case by simp
next
  case (Cons m ms)
  then show ?case by (auto split: sum.splits dest: step)
qed

lemma generate_forecast_run:
  assumes "county_data name = Some info" "county_encoding_map e name = Some c"
    "dates (historical_data info) \<noteq> []" "ev_totals (historical_data info) \<noteq> []"
  shows "\<exists>latest base st r.
           py_max (dates (historical_data info)) = Inr latest
         \<and> forecast_loop
             \<lparr>ctx_model = mdl, ctx_base_months = base, ctx_county_encoded = c,
              ctx_latest_date = latest\<rparr>
             (ev_totals (historical_data info)) [1..fm]
             \<lparr>predictions = [], prediction_dates = [],
              current_ev_totals = ev_totals (historical_data info)\<rparr> = Inr st
         \<and> generate_forecast e name county_data (Some mdl) fm = Inr r
         \<and> predicted_values r = predictions st
         \<and> result_prediction_dates r = prediction_dates st
         \<and> latest_historical_date r = latest
         \<and> latest_historical_value r = last (ev_totals (historical_data info))"
proof -
  obtain latest where latest: "py_max (dates (historical_data info)) = Inr latest"
    using assms(3) by (cases "dates (historical_data info)") (auto simp: py_max_def)
  then obtain base where base:
    "latest_and_base_months e (dates (historical_data info)) = Inr (latest, base)"
    by (simp add: latest_and_base_months_def Let_def)
  let ?ctx = "\<lparr>ctx_model = mdl, ctx_base_months = base, ctx_county_encoded = c,
              ctx_latest_date = latest\<rparr>"
  let ?st0 = "\<lparr>predictions = [], prediction_dates = [],
              current_ev_totals = ev_totals (historical_data info)\<rparr>"
  obtain st where st:
    "forecast_loop ?ctx (ev_totals (historical_data info)) [1..fm] ?st0 = Inr st"
    using forecast_loop_shape [OF assms(4)] by blast
  have run: "generate_forecast e name county_data (Some mdl) fm =
      reraise name (build_result e name (state info) mdl fm latest
        (ev_totals (historical_data info)) st)"
    using assms(1,2) base st
    by (simp add: generate_forecast_def get_county_info_def get_county_encoding_def Let_def)
  obtain r where r: "build_result e name (state info) mdl fm latest
        (ev_totals (historical_data info)) st = Inr r"
      "predicted_values r = predictions st" "result_prediction_dates r = prediction_dates st"
      "latest_historical_date r = latest"
      "latest_historical_value r = last (ev_totals (historical_data info))"
    using assms(4) by (simp add: build_result_def Let_def)
  have "generate_forecast e name county_data (Some mdl) fm = Inr r"
    by (simp add: run r(1) reraise_def)
  with latest st r(2-) show ?thesis by blast
qed

lemma forecast_loop_fun:
  assumes "hist \<noteq> []" "forecast_loop ctx hist ms st = Inr st'"
  shows "length (predictions st') = length (predictions st) + length ms"
    and "prediction_dates st' =
           prediction_dates st @ map (\<lambda>m. ctx_latest_date ctx + 30 * m) ms"
  using forecast_loop_shape [OF assms(1), of ctx ms st] assms(2) by auto

lemma forecast_step_appended:
  assumes "forecast_step ctx hist m st = Inr st'"
  shows "\<exists>p. predictions st' = predictions st @ [p]
           \<and> ((\<exists>raw. raw_predict ctx m (current_ev_totals st) = Inr raw
                    \<and> p = adjust_prediction (predictions st) (current_ev_totals st) raw)
              \<or> (predictions st \<noteq> [] \<and> p = last (predictions st) * 1.02)
              \<or> (predictions st = [] \<and> hist \<noteq> [] \<and> p = last hist * 1.01))"
proof (cases "raw_predict ctx m (current_ev_totals st)")
  case (Inr raw)
  have "predictions st' =
      predictions st @ [adjust_prediction (predictions st) (current_ev_totals st) raw]"
    using assms unfolding forecast_step_normal [OF Inr] by auto
  with Inr show ?thesis by blast
next
  case (Inl err)
  show ?thesis
  proof (cases "predictions st = []")
    case False
    have "predictions st' = predictions st @ [last (predictions st) * 1.02]"
      using assms unfolding forecast_step_fallback_later [OF Inl False] by auto
    with False show ?thesis by blast
  next
    case True
    show ?thesis
    proof (cases "hist = []")
      case True
      with Inl \<open>predictions st = []\<close> assms show ?thesis
        by (simp add: forecast_step_def)
    next
      case False
      have "predictions st' = predictions st @ [last hist * 1.01]"
        using assms True unfolding forecast_step_fallback_first [OF Inl True False] by auto
      with True False show ?thesis by blast
    qed
  qed
qed


lemma lower_bound_step:
  assumes "0 \<le> last hist" "\<forall>v\<in>set (predictions st). min 0.1 (last hist * 1.01) \<le> v"
    "forecast_step ctx hist m st = Inr st'"
  shows "\<forall>v\<in>set (predictions st'). min 0.1 (last hist * 1.01) \<le> v"
proof -
  obtain p where p: "predictions st' = predictions st @ [p]"
    and cases: "(\<exists>raw. raw_predict ctx m (current_ev_totals st) = Inr raw
                    \<and> p = adjust_prediction (predictions st) (current_ev_totals st) raw)
              \<or> (predictions st \<noteq> [] \<and> p = last (predictions st) * 1.02)
              \<or> (predictions st = [] \<and> hist \<noteq> [] \<and> p = last hist * 1.01)"
    using forecast_step_appended [OF assms(3)] by blast
  have "min 0.1 (last hist * 1.01) \<le> p"
    using cases
  proof (elim disjE exE conjE)
    fix raw assume "p = adjust_prediction (predictions st) (current_ev_totals st) raw"
    then show ?thesis
      using adjust_prediction_ge_threshold [of "predictions st" "current_ev_totals st" raw]
      by simp
  next
    assume ne: "predictions st \<noteq> []" and pv: "p = last (predictions st) * 1.02"
    have "min 0.1 (last hist * 1.01) \<le> last (predictions st)"
      using assms(2) ne by simp
    moreover have "0 \<le> min 0.1 (last hist * 1.01)" using assms(1) by simp
    ultimately show ?thesis using pv by simp
  next
    assume "p = last hist * 1.01"
    then show ?thesis by simp
  qed
  with assms(2) p show ?thesis by simp
qed


lemma generate_forecast_clock:
  "generate_forecast (e\<lparr>now := t\<rparr>) name cd m h =
     map_sum id (\<lambda>r. r\<lparr>metadata := (metadata r)\<lparr>prediction_date := t\<rparr>\<rparr>)
       (generate_forecast e name cd m h)"
  by (auto simp: generate_forecast_def get_county_encoding_def latest_and_base_months_def
      build_result_def reraise_def Let_def
      split: option.splits sum.splits prod.splits py_exception.splits)

lemma example_base_months:
  "latest_and_base_months example_env [738886, 738917, 738946] = Inr (738946, 86)"
proof -
  have "civil_year_month 738946 = (2024, 3)" "civil_year_month 736330 = (2017, 1)"
    by code_simp+
  then show ?thesis
    by (simp add: latest_and_base_months_def py_max_def example_env_def date_year_def
        date_month_def)
qed

lemma example_encoding: "county_encoding_map example_env ''King'' = Some 7"
  by (simp add: example_env_def)

lemma forecast_step_st_frame:
  "fresh (snd (forecast_step_st ctx hr cr m pl s)) = fresh s
   \<and> (\<forall>b. b \<noteq> cr \<longrightarrow> cells (snd (forecast_step_st ctx hr cr m pl s)) b = cells s b)"
  by (cases pl) (auto simp: forecast_step_st_def list_append_def Let_def split: sum.splits)

lemma forecast_loop_st_frame:
  "fresh (snd (forecast_loop_st ctx hr cr ms pl s)) = fresh s
   \<and> (\<forall>b. b \<noteq> cr \<longrightarrow> cells (snd (forecast_loop_st ctx hr cr ms pl s)) b = cells s b)"
proof (induction ms arbitrary: pl s)
  case Nil
  show ?case by simp
next
  case (Cons m ms)
  obtain res s' where step: "forecast_step_st ctx hr cr m pl s = (res, s')"
    by (cases "forecast_step_st ctx hr cr m pl s")
  have fr: "fresh s' = fresh s" "\<forall>b. b \<noteq> cr \<longrightarrow> cells s' b = cells s b"
    using forecast_step_st_frame [of ctx hr cr m pl s] by (simp_all add: step)
  show ?case
  proof (cases res)
    case (Inl err)
    then show ?thesis using fr by (simp add: step)
  next
    case (Inr pl')
    then show ?thesis using fr Cons.IH [where pl = pl' and s = s'] by (simp add: step)
  qed
qed

lemma forecast_step_st_sim:
  assumes "hr \<noteq> cr"
  shows "case forecast_step ctx (cells s hr) m
                \<lparr>predictions = preds, prediction_dates = pdates,
                 current_ev_totals = cells s cr\<rparr> of
           Inl err \<Rightarrow> fst (forecast_step_st ctx hr cr m (preds, pdates) s) = Inl err
         | Inr st' \<Rightarrow>
             fst (forecast_step_st ctx hr cr m (preds, pdates) s)
               = Inr (predictions st', prediction_dates st')
             \<and> cells (snd (forecast_step_st ctx hr cr m (preds, pdates) s)) cr
               = current_ev_totals st'"
  using assms
  by (auto simp: forecast_step_st_def forecast_step_def list_append_def Let_def
      split: sum.splits)

lemma forecast_loop_st_sim:
  assumes "hr \<noteq> cr"
  shows "case forecast_loop ctx (cells s hr) ms
                \<lparr>predictions = preds, prediction_dates = pdates,
                 current_ev_totals = cells s cr\<rparr> of
           Inl err \<Rightarrow> fst (forecast_loop_st ctx hr cr ms (preds, pdates) s) = Inl err
         | Inr st' \<Rightarrow>
             fst (forecast_loop_st ctx hr cr ms (preds, pdates) s)
               = Inr (predictions st', prediction_dates st')
             \<and> cells (snd (forecast_loop_st ctx hr cr ms (preds, pdates) s)) cr
               = current_ev_totals st'"
proof (induction ms arbitrary: preds pdates s)
  case Nil
  show ?case by simp
next
  case (Cons m ms)
  let ?st = "\<lparr>predictions = preds, prediction_dates = pdates, current_ev_totals = cells s cr\<rparr>"
  obtain res s' where step: "forecast_step_st ctx hr cr m (preds, pdates) s = (res, s')"
    by (cases "forecast_step_st ctx hr cr m (preds, pdates) s")
  have hist: "cells s' hr = cells s hr"
    using forecast_step_st_frame [of ctx hr cr m "(preds, pdates)" s] assms
    by (simp add: step)
  show ?case
  proof (cases "forecast_step ctx (cells s hr) m ?st")
    case (Inl err)
    with forecast_step_st_sim [OF assms, where ctx = ctx and s = s and m = m and preds = preds
        and pdates = pdates]
    show ?thesis by (simp add: step)
  next
    case (Inr st')
    with forecast_step_st_sim [OF assms, where ctx = ctx and s = s and m = m and preds = preds
        and pdates = pdates]
    have res: "res = Inr (predictions st', prediction_dates st')"
      and cur: "cells s' cr = current_ev_totals st'"
      by (simp_all add: step)
    have st': "st' = \<lparr>predictions = predictions st', prediction_dates = prediction_dates st',
                     current_ev_totals = cells s' cr\<rparr>"
      by (simp add: cur)
    show ?thesis
      using Cons.IH [where s = s' and preds = "predictions st'"
          and pdates = "prediction_dates st'"]
      by (simp add: step res Inr hist st' [symmetric] split: sum.splits)
  qed
qed

lemma generate_forecast_st_unfold:
  assumes "county_data name = Some info"
    and "county_encoding_map e name = Some c"
    and "latest_and_base_months e (dates (historical_data info)) = Inr (latest, base)"
  shows "generate_forecast_st e name county_data (Some mdl) fm s =
     (let hr = ev_totals (historical_data info);
          cr = Suc (fresh s);
          s2 = s\<lparr>cells := (cells s)(fresh s := cells s hr, Suc (fresh s) := cells s hr),
                 fresh := Suc (Suc (fresh s))\<rparr>;
          ctx = \<lparr>ctx_model = mdl, ctx_base_months = base, ctx_county_encoded = c,
                 ctx_latest_date = latest\<rparr>
      in case forecast_loop_st ctx hr cr [1..fm] ([], []) s2 of
           (Inl err, s3) \<Rightarrow> (reraise name (Inl err), s3)
         | (Inr (preds, pdates), s3) \<Rightarrow>
             (reraise name
                (build_result e name (state info) mdl fm latest (cells s3 hr)
                   \<lparr>predictions = preds, prediction_dates = pdates,
                    current_ev_totals = cells s3 cr\<rparr>), s3))"
  using assms
  by (simp add: generate_forecast_st_def get_county_info_def get_county_encoding_def
      list_copy_def Let_def)

lemma generate_forecast_st_frame:
  assumes "b < fresh s"
  shows "cells (snd (generate_forecast_st e name county_data model_opt fm s)) b = cells s b"
proof (cases model_opt)
  case None
  then show ?thesis by (simp add: generate_forecast_st_def)
next
  case (Some mdl)
  show ?thesis
  proof (cases "county_data name")
    case None
    then show ?thesis by (simp add: generate_forecast_st_def get_county_info_def Some)
  next
    case info: (Some info)
    show ?thesis
    proof (cases "county_encoding_map e name")
      case None
      then show ?thesis
        using assms
        by (simp add: generate_forecast_st_def get_county_info_def get_county_encoding_def
            list_copy_def Let_def Some info)
    next
      case enc: (Some c)
      show ?thesis
      proof (cases "latest_and_base_months e (dates (historical_data info))")
        case (Inl err)
        then show ?thesis
          using assms
          by (simp add: generate_forecast_st_def get_county_info_def get_county_encoding_def
              list_copy_def Let_def Some info enc)
      next
        case (Inr lb)
        obtain latest base where lb: "lb = (latest, base)" by (cases lb)
        let ?hr = "ev_totals (historical_data info)"
        let ?s2 = "s\<lparr>cells := (cells s)(fresh s := cells s ?hr, Suc (fresh s) := cells s ?hr),
                 fresh := Suc (Suc (fresh s))\<rparr>"
        let ?ctx = "\<lparr>ctx_model = mdl, ctx_base_months = base, ctx_county_encoded = c,
                 ctx_latest_date = latest\<rparr>"
        let ?run = "forecast_loop_st ?ctx ?hr (Suc (fresh s)) [1..fm] ([], []) ?s2"
        have "cells (snd ?run) b = cells ?s2 b"
          using forecast_loop_st_frame [of ?ctx ?hr "Suc (fresh s)" "[1..fm]" "([], [])" ?s2]
            assms by simp
        also have "\<dots> = cells s b" using assms by simp
        finally have run: "cells (snd ?run) b = cells s b" .
        have "snd (generate_forecast_st e name county_data (Some mdl) fm s) = snd ?run"
          unfolding generate_forecast_st_unfold [where county_data = county_data and name = name,
              OF info enc Inr [unfolded lb]]
          by (simp add: Let_def split: prod.splits sum.splits)
        with run show ?thesis by (simp add: Some)
      qed
    qed
  qed
qed

lemma generate_forecast_st_refines:
  assumes "\<And>info. county_data name = Some info \<Longrightarrow> ev_totals (historical_data info) < fresh s"
  shows "fst (generate_forecast_st e name county_data model_opt fm s) =
           generate_forecast e name (deref_county s county_data) model_opt fm"
proof (cases model_opt)
  case None
  then show ?thesis by (simp add: generate_forecast_st_def generate_forecast_def)
next
  case (Some mdl)
  show ?thesis
  proof (cases "county_data name")
    case None
    then show ?thesis
      by (simp add: generate_forecast_st_def generate_forecast_def get_county_info_def
          deref_county_def Some)
  next
    case info: (Some info)
    have hr: "ev_totals (historical_data info) < fresh s" by (rule assms [OF info])
    let ?hr = "ev_totals (historical_data info)"
    have pure_info: "deref_county s county_data name =
        Some \<lparr>state = state info,
              historical_data = \<lparr>dates = dates (historical_data info),
                                 ev_totals = cells s ?hr\<rparr>\<rparr>"
      by (simp add: deref_county_def info)
    show ?thesis
    proof (cases "county_encoding_map e name")
      case None
      then show ?thesis
        by (simp add: generate_forecast_st_def generate_forecast_def get_county_info_def
            get_county_encoding_def list_copy_def Let_def Some info pure_info)
    next
      case enc: (Some c)
      show ?thesis
      proof (cases "latest_and_base_months e (dates (historical_data info))")
        case (Inl err)
        then show ?thesis
          by (simp add: generate_forecast_st_def generate_forecast_def get_county_info_def
              get_county_encoding_def list_copy_def Let_def Some info enc pure_info)
      next
        case (Inr lb)
        obtain latest base where lb: "lb = (latest, base)" by (cases lb)
        let ?cr = "Suc (fresh s)"
        let ?s2 = "s\<lparr>cells := (cells s)(fresh s := cells s ?hr, Suc (fresh s) := cells s ?hr),
                 fresh := Suc (Suc (fresh s))\<rparr>"
        let ?ctx = "\<lparr>ctx_model = mdl, ctx_base_months = base, ctx_county_encoded = c,
                 ctx_latest_date = latest\<rparr>"
        let ?run = "forecast_loop_st ?ctx ?hr ?cr [1..fm] ([], []) ?s2"
        let ?pure = "forecast_loop ?ctx (cells s ?hr) [1..fm]
            \<lparr>predictions = [], prediction_dates = [], current_ev_totals = cells s ?hr\<rparr>"
        have ne: "?hr \<noteq> ?cr" using hr by simp
        have c2: "cells ?s2 ?hr = cells s ?hr" "cells ?s2 ?cr = cells s ?hr"
          using hr by simp_all
        have sim: "case ?pure of
             Inl err \<Rightarrow> fst ?run = Inl err
           | Inr st' \<Rightarrow> fst ?run = Inr (predictions st', prediction_dates st')
               \<and> cells (snd ?run) ?cr = current_ev_totals st'"
          using forecast_loop_st_sim [OF ne, where ctx = ?ctx and s = ?s2 and ms = "[1..fm]"
              and preds = "[]" and pdates = "[]"]
          by (simp only: c2)
        have hist: "cells (snd ?run) ?hr = cells s ?hr"
          using forecast_loop_st_frame [of ?ctx ?hr ?cr "[1..fm]" "([], [])" ?s2] ne c2(1)
          by simp
        have pure: "generate_forecast e name (deref_county s county_data) (Some mdl) fm =
            reraise name (case ?pure of Inl err \<Rightarrow> Inl err
              | Inr st \<Rightarrow> build_result e name (state info) mdl fm latest (cells s ?hr) st)"
          using enc Inr lb
          by (simp add: generate_forecast_def get_county_info_def get_county_encoding_def
              pure_info Let_def cong: sum.case_cong)
        obtain res s3 where run: "?run = (res, s3)" by (cases ?run)
        have st: "fst (generate_forecast_st e name county_data (Some mdl) fm s) =
            (case res of Inl err \<Rightarrow> reraise name (Inl err)
             | Inr (preds, pdates) \<Rightarrow>
                 reraise name (build_result e name (state info) mdl fm latest (cells s3 ?hr)
                   \<lparr>predictions = preds, prediction_dates = pdates,
                    current_ev_totals = cells s3 ?cr\<rparr>))"
          unfolding generate_forecast_st_unfold [where county_data = county_data and name = name,
              OF info enc Inr [unfolded lb]]
          by (simp add: Let_def run split: prod.splits sum.splits)
        show ?thesis
        proof (cases ?pure)
          case (Inl err)
          with sim run have "res = Inl err" by simp
          then show ?thesis by (simp add: Some st pure Inl)
        next
          case (Inr st')
          with sim run have res: "res = Inr (predictions st', prediction_dates st')"
            and cur: "cells s3 ?cr = current_ev_totals st'"
            by simp_all
          have h3: "cells s3 ?hr = cells s ?hr" using hist run by simp
          have eta: "\<lparr>predictions = predictions st', prediction_dates = prediction_dates st',
              current_ev_totals = current_ev_totals st'\<rparr> = st'"
            by (cases st') simp
          show ?thesis by (simp add: Some st pure Inr res cur h3 eta)
        qed
      qed
    qed
  qed
qed

text \<open>
  The worked example: history 1000, 1050, 1100, horizon 2, raw predictions 1150 and 1300
  give the values 1150 and 1300 at 30 and 60 days after the last historical date.
\<close>

lemma worked_example:
  "map_sum exc_str (\<lambda>r. (predicted_values r, result_prediction_dates r))
     (generate_forecast example_env ''King'' (example_county [1000, 1050, 1100])
        (Some stepwise_model) 2)
   = Inr ([1150, 1300], [738946 + 30, 738946 + 60])"
  by (simp add: generate_forecast_def get_county_info_def get_county_encoding_def
      example_base_months example_encoding forecast_step_def raw_predict_def
      forecast_features_def py_truediv_def adjust_prediction_def fl_lt_def py_max2_def py_max_num_def
      build_result_def reraise_def
      add_days_def Let_def example_county_def example_info_def
      stepwise_model_def upto_rec1)

lemmas run_defs = generate_forecast_def get_county_info_def get_county_encoding_def
  latest_and_base_months_def py_max_def forecast_step_def raw_predict_def
  forecast_features_def py_truediv_def adjust_prediction_def fl_lt_def py_max2_def py_max_num_def
      build_result_def reraise_def
  add_days_def Let_def example_env_def example_county_def example_info_def
  constant_model_def failing_model_def example_ctx_def upto_rec1

subsection \<open>Feature engineering\<close>

text \<open>
  C7. For a series \<open>v\<close> of length \<open>n \<ge> 3\<close>, both feature computations (the function
  \<^verbatim>\<open>calculate_feature_engineering_values\<close> and the one written out in the loop) return
  normally, so no division by zero is raised, and in both
  \<open>ev_total_pct_change_1 = (v[n-1] - v[n-2]) / v[n-2]\<close> when \<open>v[n-2] \<noteq> 0\<close> and \<open>0\<close>
  otherwise, \<open>ev_total_pct_change_3 = (v[n-1] - v[n-4]) / v[n-4]\<close> when \<open>n \<ge> 4\<close> and
  \<open>v[n-4] \<noteq> 0\<close> and \<open>0\<close> otherwise.
\<close>

theorem pct_change_features:
  assumes "3 \<le> length v"
  shows "\<exists>fs mi. calculate_feature_engineering_values \<lparr>dates = ds, ev_totals = v\<rparr> = Inr fs
           \<and> forecast_features months c v = Inr mi
           \<and> map_of fs ''ev_total_pct_change_1'' =
               Some (if v ! (length v - 2) \<noteq> 0
                     then (v ! (length v - 1) - v ! (length v - 2)) / v ! (length v - 2) else 0)
           \<and> map_of fs ''ev_total_pct_change_3'' =
               Some (if 4 \<le> length v \<and> v ! (length v - 4) \<noteq> 0
                     then (v ! (length v - 1) - v ! (length v - 4)) / v ! (length v - 4) else 0)
           \<and> map_of mi ''ev_total_pct_change_1'' = map_of fs ''ev_total_pct_change_1''
           \<and> map_of mi ''ev_total_pct_change_3'' = map_of fs ''ev_total_pct_change_3''"
  using assms
  by (simp add: calculate_feature_engineering_values_def feature_engineering_body_def
      forecast_features_def py_truediv_def Let_def)

theorem pct_change_features_witness:
  "3 \<le> length [100, 0, 50, 75 :: real] \<and>
   (\<exists>fs mi. calculate_feature_engineering_values \<lparr>dates = [], ev_totals = [100, 0, 50, 75]\<rparr> = Inr fs
           \<and> forecast_features 5 7 [100, 0, 50, 75] = Inr mi
           \<and> map_of fs ''ev_total_pct_change_1'' = Some (1 / 2)
           \<and> map_of fs ''ev_total_pct_change_3'' = Some (- 1 / 4)
           \<and> map_of mi ''ev_total_pct_change_1'' = Some (1 / 2)
           \<and> map_of mi ''ev_total_pct_change_3'' = Some (- 1 / 4))"
  using pct_change_features [of "[100, 0, 50, 75]" "[]" 5 7] by auto

subsection \<open>Length of the result and prediction dates\<close>

text \<open>
  C1. For a county with at least 3 historical points (dates in chronological order), a
  model that is not \<^verbatim>\<open>None\<close> and a horizon \<open>\<ge> 1\<close>, \<^verbatim>\<open>generate_forecast\<close> returns a
  result whose lists of predicted values and of prediction dates both have exactly
  \<open>horizon\<close> entries; the date of step \<open>k\<close> is the last historical date plus \<open>30 * k\<close>
  days, so consecutive dates are 30 days apart and strictly increasing. The regressor is
  arbitrary, so this covers the normal and the fallback path.
\<close>

theorem forecast_length_and_dates:
  assumes "county_data name = Some info"
    and "county_encoding_map e name = Some c"
    and "3 \<le> length (ev_totals (historical_data info))"
    and "length (dates (historical_data info)) = length (ev_totals (historical_data info))"
    and "sorted (dates (historical_data info))"
    and "1 \<le> horizon"
  shows "\<exists>r. generate_forecast e name county_data (Some mdl) horizon = Inr r
           \<and> length (predicted_values r) = nat horizon
           \<and> length (result_prediction_dates r) = nat horizon
           \<and> result_prediction_dates r =
               map (\<lambda>k. last (dates (historical_data info)) + 30 * k) [1..horizon]
           \<and> (\<forall>i. Suc i < nat horizon \<longrightarrow>
                 result_prediction_dates r ! Suc i = result_prediction_dates r ! i + 30)
           \<and> sorted_wrt (<) (result_prediction_dates r)"
proof -
  let ?h = "historical_data info"
  have ne: "dates ?h \<noteq> []" "ev_totals ?h \<noteq> []" using assms(3,4) by auto
  obtain latest base st r where
    latest: "py_max (dates ?h) = Inr latest"
    and loop: "forecast_loop
        \<lparr>ctx_model = mdl, ctx_base_months = base, ctx_county_encoded = c,
         ctx_latest_date = latest\<rparr>
        (ev_totals ?h) [1..horizon]
        \<lparr>predictions = [], prediction_dates = [], current_ev_totals = ev_totals ?h\<rparr> = Inr st"
    and r: "generate_forecast e name county_data (Some mdl) horizon = Inr r"
      "predicted_values r = predictions st" "result_prediction_dates r = prediction_dates st"
    using generate_forecast_run [where county_data = county_data and name = name and info = info
        and e = e and c = c and mdl = mdl and fm = horizon, OF assms(1,2) ne]
    by blast
  have latest_eq: "latest = last (dates ?h)"
    using py_max_sorted [OF assms(5) ne(1)] latest by simp
  have len: "length (predictions st) = nat horizon"
    using forecast_loop_fun(1) [OF ne(2) loop] by simp
  have ds: "prediction_dates st = map (\<lambda>k. last (dates ?h) + 30 * k) [1..horizon]"
    using forecast_loop_fun(2) [OF ne(2) loop] by (simp add: latest_eq)
  have gap: "\<forall>i. Suc i < nat horizon \<longrightarrow>
      prediction_dates st ! Suc i = prediction_dates st ! i + 30"
    unfolding ds by (auto simp: nth_map)
  have incr: "sorted_wrt (<) (prediction_dates st)"
    unfolding ds by (simp add: sorted_wrt_map sorted_wrt_iff_nth_less)
  show ?thesis
    using r len ds gap incr by (intro exI [of _ r]) simp
qed

text \<open>C1, at a concrete county with three points and horizon 2.\<close>

theorem forecast_length_and_dates_witness:
  "example_county [1000, 1050, 1100] ''King'' = Some (example_info [1000, 1050, 1100])
   \<and> county_encoding_map example_env ''King'' = Some 7
   \<and> 3 \<le> length (ev_totals (historical_data (example_info [1000, 1050, 1100])))
   \<and> sorted (dates (historical_data (example_info [1000, 1050, 1100])))
   \<and> (1::int) \<le> 2
   \<and> (\<exists>r. generate_forecast example_env ''King'' (example_county [1000, 1050, 1100])
              (Some (constant_model 1150)) 2 = Inr r
          \<and> length (predicted_values r) = 2
          \<and> result_prediction_dates r = [738976, 739006])"
  using forecast_length_and_dates [of "example_county [1000, 1050, 1100]" "''King''"
      "example_info [1000, 1050, 1100]" example_env 7 2 "constant_model 1150"]
  by (auto simp: example_county_def example_info_def example_env_def upto_rec1)

subsection \<open>The adjustment of the raw prediction\<close>

text \<open>
  C3, as the code has it. On the first step (no prediction yet), when the regressor
  returns \<open>raw\<close> and \<open>cur\<close> is the last value of the working series, the recorded value is
  \<open>max 0.1 x\<close> where \<open>x\<close> is \<open>0.95 * cur\<close> if \<open>raw < 0.7 * cur\<close>, else \<open>1.1 * cur\<close> if
  \<open>raw > 1.5 * cur\<close>, else \<open>raw\<close>; it is appended to the working series. For \<open>cur = 100\<close>
  the value is 95 for \<open>raw = 50\<close> and 110 for \<open>raw = 200\<close>. (For a NaN \<open>raw\<close> both
  comparisons are false, \<open>x\<close> is NaN and \<^verbatim>\<open>max(0.1, x)\<close> is 0.1.)
\<close>

theorem first_step_adjustment:
  assumes "predictions st = []"
    and "raw_predict ctx m (current_ev_totals st) = Inr raw"
  shows "(\<exists>st'. forecast_step ctx hist m st = Inr st'
           \<and> predictions st' =
               [case raw of
                  Num x \<Rightarrow>
                    max 0.1 (if x < 0.7 * last (current_ev_totals st)
                             then 0.95 * last (current_ev_totals st)
                             else if x > 1.5 * last (current_ev_totals st)
                             then 1.1 * last (current_ev_totals st)
                             else x)
                | NaN \<Rightarrow> 0.1]
           \<and> current_ev_totals st' = current_ev_totals st @ predictions st')
         \<and> adjust_prediction [] (xs @ [100]) (Num 50) = 95
         \<and> adjust_prediction [] (xs @ [100]) (Num 200) = 110"
  using assms
  by (cases raw)
    (simp_all add: forecast_step_normal adjust_prediction_Num adjust_prediction_NaN
      mult.commute)

text \<open>C3, at the series 80, 90, 100 with a regressor that answers 50.\<close>

theorem first_step_adjustment_witness:
  "predictions \<lparr>predictions = [], prediction_dates = [],
                 current_ev_totals = [80, 90, 100]\<rparr> = []
   \<and> raw_predict (example_ctx (constant_model 50)) 1 [80, 90, 100] = Inr (Num 50)
   \<and> (\<exists>st'. forecast_step (example_ctx (constant_model 50)) [80, 90, 100] 1
                 \<lparr>predictions = [], prediction_dates = [],
                  current_ev_totals = [80, 90, 100]\<rparr> = Inr st'
            \<and> predictions st' = [95] \<and> current_ev_totals st' = [80, 90, 100, 95])"
  using first_step_adjustment [of "\<lparr>predictions = [], prediction_dates = [],
                 current_ev_totals = [80, 90, 100]\<rparr>"
      "example_ctx (constant_model 50)" 1 "Num 50" "[80, 90, 100]" "[]"]
  by (auto simp: raw_predict_def forecast_features_def py_truediv_def constant_model_def
      example_ctx_def Let_def)

text \<open>
  C3 as stated fails where the clamped value is below the minimum threshold: for the
  history 0, 0, 0 and a raw prediction of \<open>-1\<close> the claim gives \<open>0.95 * 0 = 0\<close>, the code
  records 0.1.
\<close>

theorem first_step_floor_counterexample:
  "(- 1 :: real) < 0.7 * last [0, 0, 0]
   \<and> map_sum exc_str predicted_values
        (generate_forecast example_env ''King'' (example_county [0, 0, 0])
           (Some (constant_model (- 1))) 1) = Inr [0.1]
   \<and> (0.1 :: real) \<noteq> 0.95 * last [0, 0, 0]"
  by (simp add: run_defs)




subsection \<open>Sign of the recorded predictions\<close>

text \<open>
  C5, as the code has it. For a county with a non-empty history of non-negative values,
  any regressor and any horizon, the forecast is produced and every recorded value is at
  least \<open>min 0.1 (1.01 * last)\<close>, where \<open>last\<close> is the last historical value: every
  value is \<open>\<ge> 0\<close>, and \<open>> 0\<close> when \<open>last > 0\<close>. (The threshold 0.1 is applied on the
  path that uses the regressor, not in the fallback.)
\<close>

theorem predictions_lower_bound:
  assumes "county_data name = Some info"
    and "county_encoding_map e name = Some c"
    and "dates (historical_data info) \<noteq> []"
    and "ev_totals (historical_data info) \<noteq> []"
    and "\<forall>x\<in>set (ev_totals (historical_data info)). 0 \<le> x"
  shows "\<exists>r. generate_forecast e name county_data (Some mdl) horizon = Inr r
           \<and> (\<forall>v\<in>set (predicted_values r).
                 min 0.1 (last (ev_totals (historical_data info)) * 1.01) \<le> v
                 \<and> 0 \<le> v
                 \<and> (0 < last (ev_totals (historical_data info)) \<longrightarrow> 0 < v))"
proof -
  let ?h = "historical_data info"
  obtain latest base st r where
    loop: "forecast_loop
        \<lparr>ctx_model = mdl, ctx_base_months = base, ctx_county_encoded = c,
         ctx_latest_date = latest\<rparr>
        (ev_totals ?h) [1..horizon]
        \<lparr>predictions = [], prediction_dates = [], current_ev_totals = ev_totals ?h\<rparr> = Inr st"
    and r: "generate_forecast e name county_data (Some mdl) horizon = Inr r"
      "predicted_values r = predictions st"
    using generate_forecast_run [where county_data = county_data and name = name and info = info
        and e = e and c = c and mdl = mdl and fm = horizon, OF assms(1-4)]
    by blast
  have nonneg: "0 \<le> last (ev_totals ?h)" using assms(4,5) by simp
  have "\<forall>v\<in>set (predictions st). min 0.1 (last (ev_totals ?h) * 1.01) \<le> v"
  proof (rule forecast_loop_invariant
          [where P = "\<lambda>ps. \<forall>v\<in>set ps. min 0.1 (last (ev_totals ?h) * 1.01) \<le> v",
            OF _ _ loop])
    fix m s s'
    assume "\<forall>v\<in>set (predictions s). min 0.1 (last (ev_totals ?h) * 1.01) \<le> v"
      and "forecast_step
        \<lparr>ctx_model = mdl, ctx_base_months = base, ctx_county_encoded = c,
         ctx_latest_date = latest\<rparr> (ev_totals ?h) m s = Inr s'"
    then show "\<forall>v\<in>set (predictions s'). min 0.1 (last (ev_totals ?h) * 1.01) \<le> v"
      by (rule lower_bound_step [OF nonneg])
  next
    show "\<forall>v\<in>set (predictions \<lparr>predictions = [], prediction_dates = [],
        current_ev_totals = ev_totals ?h\<rparr>). min 0.1 (last (ev_totals ?h) * 1.01) \<le> v"
      by simp
  qed
  with nonneg r show ?thesis by (intro exI [of _ r]) (auto simp: min_def split: if_splits)
qed

text \<open>C5 as amended, at the history 1000, 1050, 1100 with a regressor that always raises.\<close>

theorem predictions_lower_bound_witness:
  "example_county [1000, 1050, 1100] ''King'' = Some (example_info [1000, 1050, 1100])
   \<and> county_encoding_map example_env ''King'' = Some 7
   \<and> dates (historical_data (example_info [1000, 1050, 1100])) \<noteq> []
   \<and> ev_totals (historical_data (example_info [1000, 1050, 1100])) \<noteq> []
   \<and> list_all (\<lambda>x. 0 \<le> x) (ev_totals (historical_data (example_info [1000, 1050, 1100])))
   \<and> 0 < last (ev_totals (historical_data (example_info [1000, 1050, 1100])))
   \<and> (\<exists>r. generate_forecast example_env ''King'' (example_county [1000, 1050, 1100])
              (Some failing_model) 3 = Inr r
          \<and> list_all (\<lambda>v. 0.1 \<le> v \<and> 0 < v) (predicted_values r))"
  using predictions_lower_bound [of "example_county [1000, 1050, 1100]" "''King''"
      "example_info [1000, 1050, 1100]" example_env 7 failing_model 3]
  by (auto simp: example_county_def example_info_def example_env_def list_all_iff)

text \<open>
  C5 as stated fails on the fallback path: for the history 0, 0, 0 (non-negative) and a
  regressor that raises, the recorded values are 0 and 0.
\<close>

theorem fallback_zero_counterexample:
  "map_sum exc_str predicted_values
     (generate_forecast example_env ''King'' (example_county [0, 0, 0])
        (Some failing_model) 2) = Inr [0, 0]
   \<and> \<not> (0 :: real) < 0"
  by (simp add: run_defs)

subsection \<open>Growth of the recorded predictions\<close>




subsection \<open>Repeated calls\<close>

text \<open>
  C9, as the code has it. Two calls with the same county, data, regressor and horizon
  return results (or errors) that are equal in everything except
  \<^verbatim>\<open>metadata['prediction_date']\<close>, which holds the clock reading of each call.
\<close>

theorem forecast_deterministic_up_to_timestamp:
  "map_sum id erase_timestamp (generate_forecast (e\<lparr>now := t1\<rparr>) name cd m h) =
   map_sum id erase_timestamp (generate_forecast (e\<lparr>now := t2\<rparr>) name cd m h)"
  by (cases "generate_forecast e name cd m h")
    (simp_all add: generate_forecast_clock erase_timestamp_def)

text \<open>
  C9 as stated fails: the same request made at two different times gives two results that
  differ (in the time of generation).
\<close>

theorem timestamp_counterexample:
  "generate_forecast (example_env\<lparr>now := 1\<rparr>) ''King'' (example_county [1000, 1050, 1100])
     (Some (constant_model 1150)) 1
   \<noteq> generate_forecast (example_env\<lparr>now := 2\<rparr>) ''King'' (example_county [1000, 1050, 1100])
     (Some (constant_model 1150)) 1"
  by (simp add: run_defs)

subsection \<open>Histories shorter than three points\<close>

text \<open>
  C2 on the code. For a history of two points the length check inside the loop raises
  ValueError, the handler of the same \<^verbatim>\<open>try\<close> catches it, and the request returns a
  forecast made of fallback values: \<open>1050 * 1.01\<close>, then that times 1.02.
\<close>

theorem short_history_not_rejected:
  "raw_predict (example_ctx (constant_model 1150)) 1 [1000, 1050] =
     Inl (ValueError ''Insufficient historical data for iterative prediction'')
   \<and> map_sum exc_str predicted_values
       (generate_forecast example_env ''King'' (example_county [1000, 1050])
          (Some (constant_model 1150)) 2) = Inr [1060.5, 1081.71]"
  by (simp add: run_defs)

subsection \<open>The working series after a fallback\<close>

text \<open>
  C6 on the code. After a first step that takes the fallback, the value 1111 is in the
  list of predictions but not in the working series: the second step computes its features
  from 1000, 1050, 1100 (the regressor answers \<open>1.1 * 1100 = 1210\<close>, not
  \<open>1.1 * 1111\<close>), and the working series ends as 1000, 1050, 1100, 1210.
\<close>

theorem fallback_not_in_working_series:
  "forecast_loop (example_ctx first_failing_model) [1000, 1050, 1100] [1..2]
     \<lparr>predictions = [], prediction_dates = [], current_ev_totals = [1000, 1050, 1100]\<rparr>
   = Inr \<lparr>predictions = [1111, 1210], prediction_dates = [738976, 739006],
          current_ev_totals = [1000, 1050, 1100, 1210]\<rparr>
   \<and> map_sum exc_str predicted_values
       (generate_forecast example_env ''King'' (example_county [1000, 1050, 1100])
          (Some first_failing_model) 2) = Inr [1111, 1210]"
  by (simp add: generate_forecast_def get_county_info_def get_county_encoding_def
      example_base_months example_encoding forecast_step_def raw_predict_def
      forecast_features_def py_truediv_def adjust_prediction_def fl_lt_def py_max2_def py_max_num_def
      build_result_def reraise_def
      add_days_def Let_def example_county_def example_info_def
      first_failing_model_def example_ctx_def upto_rec1)

subsection \<open>The caller's list\<close>

text \<open>
  C8. \<^verbatim>\<open>generate_forecast\<close> never changes the caller's historical series: whatever
  the regressor does and whether the call returns or raises, the list of totals of the
  county, and every other list that existed before the call, holds the same values after
  it; predictions are appended to a list that the call allocates itself. On the
  contents of the lists the function computes what the version on values computes.
\<close>

theorem caller_series_unchanged:
  assumes "county_data name = Some info"
    and "ev_totals (historical_data info) < fresh s"
  shows "cells (snd (generate_forecast_st e name county_data model_opt fm s))
             (ev_totals (historical_data info))
           = cells s (ev_totals (historical_data info))
         \<and> (\<forall>b<fresh s.
               cells (snd (generate_forecast_st e name county_data model_opt fm s)) b
                 = cells s b)
         \<and> fst (generate_forecast_st e name county_data model_opt fm s)
           = generate_forecast e name (deref_county s county_data) model_opt fm"
proof (intro conjI allI impI)
  show "cells (snd (generate_forecast_st e name county_data model_opt fm s))
             (ev_totals (historical_data info))
           = cells s (ev_totals (historical_data info))"
    by (rule generate_forecast_st_frame [OF assms(2)])
next
  fix b assume "b < fresh s"
  then show "cells (snd (generate_forecast_st e name county_data model_opt fm s)) b
                 = cells s b"
    by (rule generate_forecast_st_frame)
next
  show "fst (generate_forecast_st e name county_data model_opt fm s)
           = generate_forecast e name (deref_county s county_data) model_opt fm"
    by (rule generate_forecast_st_refines) (use assms in simp)
qed

text \<open>C8, at the example county with a regressor that answers 1150 and horizon 2.\<close>

theorem caller_series_unchanged_witness:
  "example_county_st ''King'' = Some example_info_st
   \<and> ev_totals (historical_data example_info_st) < fresh example_store
   \<and> cells (snd (generate_forecast_st example_env ''King'' example_county_st
                     (Some (constant_model 1150)) 2 example_store)) 0
       = [1000, 1050, 1100]
   \<and> cells (snd (generate_forecast_st example_env ''King'' example_county_st
                     (Some (constant_model 1150)) 2 example_store)) 2
       = [1000, 1050, 1100, 1150, 1161.5]"
  using caller_series_unchanged [of example_county_st "''King''" example_info_st
      example_store example_env "Some (constant_model 1150)" 2]
  by (simp add: generate_forecast_st_def get_county_info_def get_county_encoding_def
      example_base_months example_encoding forecast_step_st_def list_copy_def list_append_def
      raw_predict_def forecast_features_def py_truediv_def adjust_prediction_def fl_lt_def
      py_max2_def py_max_num_def
      build_result_def reraise_def add_days_def Let_def example_county_st_def
      example_info_st_def example_store_def constant_model_def upto_rec1)

end
